theory Spec2Isabelle
  imports Main "HOL-Library.Multiset" "HOL-Library.Char_ord" "HOL-Library.List_Lexorder"
begin

section \<open>Study planner backend: schema, storage access and request handlers\<close>

text \<open>
  The backend has three layers: the table declarations with their insert schemas, the
  class \<open>DatabaseStorage\<close> with one method per operation, and the route handlers of
  \<open>registerRoutes\<close>. The relational store is an external collaborator; it is modelled
  as a record of tables (lists of rows, in insertion order) together with the \<open>serial\<close>
  sequence of each table. Every storage method takes the store and returns its result with
  the store it leaves behind; a statement the store client rejects is a value of
  \<open>db_error\<close>, which the handlers' \<open>catch\<close> turns into status 500.

  Conventions of the model:
  \<^item> a JavaScript number that is an integer is an \<open>int\<close>; \<open>NaN\<close> (the only other number
    that \<open>parseInt\<close> returns) is a constructor of \<open>number\<close>. The 32-bit range of the
    \<open>integer\<close> columns and the 53-bit precision of JavaScript numbers are not modelled;
  \<^item> \<open>undefined\<close> is \<open>None\<close>; for a nullable column SQL \<open>NULL\<close> is \<open>None\<close> in the
    row and \<open>Some None\<close> in a payload that supplies \<open>null\<close>;
  \<^item> update payloads have the declared type of the storage parameter
    (\<open>Partial<InsertSubject>\<close> and so on): every field optional, typed as its column.
    The PATCH handlers pass \<open>req.body\<close> on unchecked; bodies with keys outside that type
    (such as \<open>id\<close>) or with values of another type are not modelled;
  \<^item> a query without \<open>orderBy\<close> returns the rows in the order of the table;
    \<open>orderBy\<close> on a text column is the lexicographic order on strings;
  \<^item> strings are ASCII;
  \<^item> failures of the connection itself are outside the model.
\<close>

subsection \<open>Rows (the \<open>$inferSelect\<close> types)\<close>

record User =
  user_id :: int
  user_username :: string
  user_password :: string

record Subject =
  subject_id :: int
  subject_name :: string
  subject_color :: string
  subject_icon :: string
  subject_currentTopic :: "string option"
  subject_progress :: int
  subject_totalHours :: int

record StudySession =
  session_id :: int
  session_subjectId :: int
  session_title :: string
  session_description :: "string option"
  session_startTime :: string
  session_endTime :: string
  session_date :: string
  session_status :: string
  session_actualDuration :: "int option"

record Note =
  note_id :: int
  note_subjectId :: int
  note_title :: string
  note_content :: string
  note_createdAt :: string

record Goal =
  goal_id :: int
  goal_title :: string
  goal_description :: "string option"
  goal_targetDate :: string
  goal_progress :: int
  goal_isCompleted :: bool

record StudyStats =
  stats_id :: int
  stats_date :: string
  stats_totalMinutes :: int
  stats_sessionsCompleted :: int
  stats_streak :: int

subsection \<open>Insert payloads (the types inferred from the insert schemas)\<close>

text \<open>
  A column that is \<open>notNull\<close> without a default is required; a column with a default is
  optional; a nullable column is optional and accepts \<open>null\<close>.
\<close>

record InsertUser =
  iu_username :: string
  iu_password :: string

record InsertSubject =
  is_name :: string
  is_color :: "string option"
  is_icon :: "string option"
  is_currentTopic :: "string option option"
  is_progress :: "int option"
  is_totalHours :: "int option"

record InsertStudySession =
  ss_subjectId :: int
  ss_title :: string
  ss_description :: "string option option"
  ss_startTime :: string
  ss_endTime :: string
  ss_date :: string
  ss_status :: "string option"
  ss_actualDuration :: "int option option"

record InsertNote =
  in_subjectId :: int
  in_title :: string
  in_content :: string
  in_createdAt :: string

record InsertGoal =
  ig_title :: string
  ig_description :: "string option option"
  ig_targetDate :: string
  ig_progress :: "int option"
  ig_isCompleted :: "bool option"

record InsertStudyStats =
  ist_date :: string
  ist_totalMinutes :: "int option"
  ist_sessionsCompleted :: "int option"
  ist_streak :: "int option"

subsection \<open>Update payloads (\<open>Partial\<close> of the insert types)\<close>

record PartialSubject =
  ps_name :: "string option"
  ps_color :: "string option"
  ps_icon :: "string option"
  ps_currentTopic :: "string option option"
  ps_progress :: "int option"
  ps_totalHours :: "int option"

record PartialStudySession =
  pss_subjectId :: "int option"
  pss_title :: "string option"
  pss_description :: "string option option"
  pss_startTime :: "string option"
  pss_endTime :: "string option"
  pss_date :: "string option"
  pss_status :: "string option"
  pss_actualDuration :: "int option option"

record PartialNote =
  pn_subjectId :: "int option"
  pn_title :: "string option"
  pn_content :: "string option"
  pn_createdAt :: "string option"

record PartialGoal =
  pg_title :: "string option"
  pg_description :: "string option option"
  pg_targetDate :: "string option"
  pg_progress :: "int option"
  pg_isCompleted :: "bool option"

subsection \<open>The store\<close>

record store =
  users :: "User list"
  users_id_seq :: int
  subjects :: "Subject list"
  subjects_id_seq :: int
  studySessions :: "StudySession list"
  study_sessions_id_seq :: int
  "notes" :: "Note list"
  notes_id_seq :: int
  goals :: "Goal list"
  goals_id_seq :: int
  studyStats :: "StudyStats list"
  study_stats_id_seq :: int

definition empty_store :: store where
  "empty_store = \<lparr>users = [], users_id_seq = 1, subjects = [], subjects_id_seq = 1,
     studySessions = [], study_sessions_id_seq = 1, notes = [], notes_id_seq = 1,
     goals = [], goals_id_seq = 1, studyStats = [], study_stats_id_seq = 1\<rparr>"

text \<open>The values of type \<open>number\<close> that reach the storage layer as an id.\<close>

datatype number = NaN | Integer int

text \<open>
  The errors of the store client: \<open>set\<close> throws when its object has no defined value
  (\<open>No values to set\<close>), before the statement is sent; the store rejects a row whose key
  is taken, and a parameter that is not an integer where a column is one.
\<close>

datatype db_error = NoValuesToSet | UniqueViolation | InvalidParameter

subsection \<open>The statements the storage methods issue\<close>

text \<open>\<open>const [x] = rows\<close>: the first row, or \<open>undefined\<close>.\<close>

definition first :: "'r list \<Rightarrow> 'r option" where
  "first rows = (case rows of [] \<Rightarrow> None | r # _ \<Rightarrow> Some r)"

text \<open>\<open>select().from(t).where(p)\<close>.\<close>

definition select_where :: "('r \<Rightarrow> bool) \<Rightarrow> 'r list \<Rightarrow> 'r list" where
  "select_where p rows = filter p rows"

text \<open>
  \<open>insert(t).values(v).returning()\<close>, with the row already built from the payload, the
  defaults and the next value of the sequence: a row whose key is taken violates the
  primary key.
\<close>

definition insert_returning :: "('r \<Rightarrow> int) \<Rightarrow> 'r \<Rightarrow> 'r list \<Rightarrow> db_error + 'r list" where
  "insert_returning key r rows =
     (if key r \<in> key ` set rows then Inl UniqueViolation else Inr (rows @ [r]))"

text \<open>
  \<open>update(t).set(f).where(p).returning()\<close>: the table afterwards and the rows returned.
\<close>

definition update_where :: "('r \<Rightarrow> 'r) \<Rightarrow> ('r \<Rightarrow> bool) \<Rightarrow> 'r list \<Rightarrow> 'r list \<times> 'r list" where
  "update_where f p rows = (map (\<lambda>r. if p r then f r else r) rows, map f (filter p rows))"

text \<open>\<open>delete(t).where(p)\<close>: the table afterwards and \<open>rowCount\<close>.\<close>

definition delete_where :: "('r \<Rightarrow> bool) \<Rightarrow> 'r list \<Rightarrow> 'r list \<times> nat" where
  "delete_where p rows = (filter (\<lambda>r. \<not> p r) rows, length (filter p rows))"

text \<open>\<open>x ?? d\<close> and the choice between a supplied value and the column default.\<close>

definition or_default :: "'a option \<Rightarrow> 'a \<Rightarrow> 'a" where
  "or_default v d = (case v of None \<Rightarrow> d | Some x \<Rightarrow> x)"

subsection \<open>DatabaseStorage: subjects\<close>

definition subject_row :: "int \<Rightarrow> InsertSubject \<Rightarrow> Subject" where
  "subject_row i v =
     \<lparr>subject_id = i, subject_name = is_name v,
      subject_color = or_default (is_color v) ''#4F46E5'',
      subject_icon = or_default (is_icon v) ''fas fa-book'',
      subject_currentTopic = or_default (is_currentTopic v) None,
      subject_progress = or_default (is_progress v) 0,
      subject_totalHours = or_default (is_totalHours v) 0\<rparr>"

definition set_subject :: "PartialSubject \<Rightarrow> Subject \<Rightarrow> Subject" where
  "set_subject u r =
     r\<lparr>subject_name := or_default (ps_name u) (subject_name r),
       subject_color := or_default (ps_color u) (subject_color r),
       subject_icon := or_default (ps_icon u) (subject_icon r),
       subject_currentTopic := or_default (ps_currentTopic u) (subject_currentTopic r),
       subject_progress := or_default (ps_progress u) (subject_progress r),
       subject_totalHours := or_default (ps_totalHours u) (subject_totalHours r)\<rparr>"

definition no_values_subject :: "PartialSubject \<Rightarrow> bool" where
  "no_values_subject u \<longleftrightarrow>
     ps_name u = None \<and> ps_color u = None \<and> ps_icon u = None \<and> ps_currentTopic u = None \<and>
     ps_progress u = None \<and> ps_totalHours u = None"

definition getSubjects :: "store \<Rightarrow> db_error + Subject list" where
  "getSubjects st = Inr (subjects st)"

definition getSubject :: "store \<Rightarrow> number \<Rightarrow> db_error + Subject option" where
  "getSubject st id' =
     (case id' of NaN \<Rightarrow> Inl InvalidParameter
      | Integer i \<Rightarrow> Inr (first (select_where (\<lambda>r. subject_id r = i) (subjects st))))"

definition createSubject :: "store \<Rightarrow> InsertSubject \<Rightarrow> (db_error + Subject) \<times> store" where
  "createSubject st insertSubject =
     (let subject = subject_row (subjects_id_seq st) insertSubject;
          st1 = st\<lparr>subjects_id_seq := subjects_id_seq st + 1\<rparr>
      in case insert_returning subject_id subject (subjects st) of
           Inl e \<Rightarrow> (Inl e, st1)
         | Inr rows \<Rightarrow> (Inr subject, st1\<lparr>subjects := rows\<rparr>))"

definition updateSubject ::
  "store \<Rightarrow> number \<Rightarrow> PartialSubject \<Rightarrow> (db_error + Subject option) \<times> store" where
  "updateSubject st id' updates =
     (if no_values_subject updates then (Inl NoValuesToSet, st)
      else case id' of NaN \<Rightarrow> (Inl InvalidParameter, st)
      | Integer i \<Rightarrow>
          (let (rows, returned) =
                 update_where (set_subject updates) (\<lambda>r. subject_id r = i) (subjects st)
           in (Inr (first returned), st\<lparr>subjects := rows\<rparr>)))"

definition deleteSubject :: "store \<Rightarrow> number \<Rightarrow> (db_error + bool) \<times> store" where
  "deleteSubject st id' =
     (case id' of NaN \<Rightarrow> (Inl InvalidParameter, st)
      | Integer i \<Rightarrow>
          (let (rows, rowCount) = delete_where (\<lambda>r. subject_id r = i) (subjects st)
           in (Inr (rowCount > 0), st\<lparr>subjects := rows\<rparr>)))"

subsection \<open>DatabaseStorage: study sessions\<close>

definition session_row :: "int \<Rightarrow> InsertStudySession \<Rightarrow> StudySession" where
  "session_row i v =
     \<lparr>session_id = i, session_subjectId = ss_subjectId v, session_title = ss_title v,
      session_description = or_default (ss_description v) None,
      session_startTime = ss_startTime v, session_endTime = ss_endTime v,
      session_date = ss_date v,
      session_status = or_default (ss_status v) ''upcoming'',
      session_actualDuration = or_default (ss_actualDuration v) (Some 0)\<rparr>"

definition set_session :: "PartialStudySession \<Rightarrow> StudySession \<Rightarrow> StudySession" where
  "set_session u r =
     r\<lparr>session_subjectId := or_default (pss_subjectId u) (session_subjectId r),
       session_title := or_default (pss_title u) (session_title r),
       session_description := or_default (pss_description u) (session_description r),
       session_startTime := or_default (pss_startTime u) (session_startTime r),
       session_endTime := or_default (pss_endTime u) (session_endTime r),
       session_date := or_default (pss_date u) (session_date r),
       session_status := or_default (pss_status u) (session_status r),
       session_actualDuration :=
         or_default (pss_actualDuration u) (session_actualDuration r)\<rparr>"

definition no_values_session :: "PartialStudySession \<Rightarrow> bool" where
  "no_values_session u \<longleftrightarrow>
     pss_subjectId u = None \<and> pss_title u = None \<and> pss_description u = None \<and>
     pss_startTime u = None \<and> pss_endTime u = None \<and> pss_date u = None \<and>
     pss_status u = None \<and> pss_actualDuration u = None"

definition getStudySessions :: "store \<Rightarrow> db_error + StudySession list" where
  "getStudySessions st = Inr (studySessions st)"

definition getStudySessionsByDate :: "store \<Rightarrow> string \<Rightarrow> db_error + StudySession list" where
  "getStudySessionsByDate st date =
     Inr (select_where (\<lambda>r. session_date r = date) (studySessions st))"

definition getStudySession :: "store \<Rightarrow> number \<Rightarrow> db_error + StudySession option" where
  "getStudySession st id' =
     (case id' of NaN \<Rightarrow> Inl InvalidParameter
      | Integer i \<Rightarrow> Inr (first (select_where (\<lambda>r. session_id r = i) (studySessions st))))"

definition createStudySession ::
  "store \<Rightarrow> InsertStudySession \<Rightarrow> (db_error + StudySession) \<times> store" where
  "createStudySession st insertSession =
     (let session = session_row (study_sessions_id_seq st) insertSession;
          st1 = st\<lparr>study_sessions_id_seq := study_sessions_id_seq st + 1\<rparr>
      in case insert_returning session_id session (studySessions st) of
           Inl e \<Rightarrow> (Inl e, st1)
         | Inr rows \<Rightarrow> (Inr session, st1\<lparr>studySessions := rows\<rparr>))"

definition updateStudySession ::
  "store \<Rightarrow> number \<Rightarrow> PartialStudySession \<Rightarrow> (db_error + StudySession option) \<times> store" where
  "updateStudySession st id' updates =
     (if no_values_session updates then (Inl NoValuesToSet, st)
      else case id' of NaN \<Rightarrow> (Inl InvalidParameter, st)
      | Integer i \<Rightarrow>
          (let (rows, returned) =
                 update_where (set_session updates) (\<lambda>r. session_id r = i) (studySessions st)
           in (Inr (first returned), st\<lparr>studySessions := rows\<rparr>)))"

definition deleteStudySession :: "store \<Rightarrow> number \<Rightarrow> (db_error + bool) \<times> store" where
  "deleteStudySession st id' =
     (case id' of NaN \<Rightarrow> (Inl InvalidParameter, st)
      | Integer i \<Rightarrow>
          (let (rows, rowCount) = delete_where (\<lambda>r. session_id r = i) (studySessions st)
           in (Inr (rowCount > 0), st\<lparr>studySessions := rows\<rparr>)))"

subsection \<open>DatabaseStorage: notes\<close>

definition note_row :: "int \<Rightarrow> InsertNote \<Rightarrow> Note" where
  "note_row i v =
     \<lparr>note_id = i, note_subjectId = in_subjectId v, note_title = in_title v,
      note_content = in_content v, note_createdAt = in_createdAt v\<rparr>"

definition set_note :: "PartialNote \<Rightarrow> Note \<Rightarrow> Note" where
  "set_note u r =
     r\<lparr>note_subjectId := or_default (pn_subjectId u) (note_subjectId r),
       note_title := or_default (pn_title u) (note_title r),
       note_content := or_default (pn_content u) (note_content r),
       note_createdAt := or_default (pn_createdAt u) (note_createdAt r)\<rparr>"

definition no_values_note :: "PartialNote \<Rightarrow> bool" where
  "no_values_note u \<longleftrightarrow>
     pn_subjectId u = None \<and> pn_title u = None \<and> pn_content u = None \<and> pn_createdAt u = None"

text \<open>\<open>orderBy(notes.createdAt)\<close>: ascending is the default direction.\<close>

definition order_by :: "('r \<Rightarrow> string) \<Rightarrow> 'r list \<Rightarrow> 'r list" where
  "order_by col rows = sort_key col rows"

definition getNotes :: "store \<Rightarrow> db_error + Note list" where
  "getNotes st = Inr (order_by note_createdAt (notes st))"

definition getNotesBySubject :: "store \<Rightarrow> number \<Rightarrow> db_error + Note list" where
  "getNotesBySubject st subjectId =
     (case subjectId of NaN \<Rightarrow> Inl InvalidParameter
      | Integer i \<Rightarrow>
          Inr (order_by note_createdAt (select_where (\<lambda>r. note_subjectId r = i) (notes st))))"

definition getNote :: "store \<Rightarrow> number \<Rightarrow> db_error + Note option" where
  "getNote st id' =
     (case id' of NaN \<Rightarrow> Inl InvalidParameter
      | Integer i \<Rightarrow> Inr (first (select_where (\<lambda>r. note_id r = i) (notes st))))"

definition createNote :: "store \<Rightarrow> InsertNote \<Rightarrow> (db_error + Note) \<times> store" where
  "createNote st insertNote =
     (let note = note_row (notes_id_seq st) insertNote;
          st1 = st\<lparr>notes_id_seq := notes_id_seq st + 1\<rparr>
      in case insert_returning note_id note (notes st) of
           Inl e \<Rightarrow> (Inl e, st1)
         | Inr rows \<Rightarrow> (Inr note, st1\<lparr>notes := rows\<rparr>))"

definition updateNote ::
  "store \<Rightarrow> number \<Rightarrow> PartialNote \<Rightarrow> (db_error + Note option) \<times> store" where
  "updateNote st id' updates =
     (if no_values_note updates then (Inl NoValuesToSet, st)
      else case id' of NaN \<Rightarrow> (Inl InvalidParameter, st)
      | Integer i \<Rightarrow>
          (let (rows, returned) =
                 update_where (set_note updates) (\<lambda>r. note_id r = i) (notes st)
           in (Inr (first returned), st\<lparr>notes := rows\<rparr>)))"

definition deleteNote :: "store \<Rightarrow> number \<Rightarrow> (db_error + bool) \<times> store" where
  "deleteNote st id' =
     (case id' of NaN \<Rightarrow> (Inl InvalidParameter, st)
      | Integer i \<Rightarrow>
          (let (rows, rowCount) = delete_where (\<lambda>r. note_id r = i) (notes st)
           in (Inr (rowCount > 0), st\<lparr>notes := rows\<rparr>)))"

subsection \<open>DatabaseStorage: goals\<close>

definition goal_row :: "int \<Rightarrow> InsertGoal \<Rightarrow> Goal" where
  "goal_row i v =
     \<lparr>goal_id = i, goal_title = ig_title v,
      goal_description = or_default (ig_description v) None,
      goal_targetDate = ig_targetDate v,
      goal_progress = or_default (ig_progress v) 0,
      goal_isCompleted = or_default (ig_isCompleted v) False\<rparr>"

definition set_goal :: "PartialGoal \<Rightarrow> Goal \<Rightarrow> Goal" where
  "set_goal u r =
     r\<lparr>goal_title := or_default (pg_title u) (goal_title r),
       goal_description := or_default (pg_description u) (goal_description r),
       goal_targetDate := or_default (pg_targetDate u) (goal_targetDate r),
       goal_progress := or_default (pg_progress u) (goal_progress r),
       goal_isCompleted := or_default (pg_isCompleted u) (goal_isCompleted r)\<rparr>"

definition no_values_goal :: "PartialGoal \<Rightarrow> bool" where
  "no_values_goal u \<longleftrightarrow>
     pg_title u = None \<and> pg_description u = None \<and> pg_targetDate u = None \<and>
     pg_progress u = None \<and> pg_isCompleted u = None"

definition getGoals :: "store \<Rightarrow> db_error + Goal list" where
  "getGoals st = Inr (goals st)"

definition getGoal :: "store \<Rightarrow> number \<Rightarrow> db_error + Goal option" where
  "getGoal st id' =
     (case id' of NaN \<Rightarrow> Inl InvalidParameter
      | Integer i \<Rightarrow> Inr (first (select_where (\<lambda>r. goal_id r = i) (goals st))))"

definition createGoal :: "store \<Rightarrow> InsertGoal \<Rightarrow> (db_error + Goal) \<times> store" where
  "createGoal st insertGoal =
     (let goal = goal_row (goals_id_seq st) insertGoal;
          st1 = st\<lparr>goals_id_seq := goals_id_seq st + 1\<rparr>
      in case insert_returning goal_id goal (goals st) of
           Inl e \<Rightarrow> (Inl e, st1)
         | Inr rows \<Rightarrow> (Inr goal, st1\<lparr>goals := rows\<rparr>))"

definition updateGoal ::
  "store \<Rightarrow> number \<Rightarrow> PartialGoal \<Rightarrow> (db_error + Goal option) \<times> store" where
  "updateGoal st id' updates =
     (if no_values_goal updates then (Inl NoValuesToSet, st)
      else case id' of NaN \<Rightarrow> (Inl InvalidParameter, st)
      | Integer i \<Rightarrow>
          (let (rows, returned) =
                 update_where (set_goal updates) (\<lambda>r. goal_id r = i) (goals st)
           in (Inr (first returned), st\<lparr>goals := rows\<rparr>)))"

definition deleteGoal :: "store \<Rightarrow> number \<Rightarrow> (db_error + bool) \<times> store" where
  "deleteGoal st id' =
     (case id' of NaN \<Rightarrow> (Inl InvalidParameter, st)
      | Integer i \<Rightarrow>
          (let (rows, rowCount) = delete_where (\<lambda>r. goal_id r = i) (goals st)
           in (Inr (rowCount > 0), st\<lparr>goals := rows\<rparr>)))"

subsection \<open>DatabaseStorage: study stats\<close>

definition stats_row :: "int \<Rightarrow> InsertStudyStats \<Rightarrow> StudyStats" where
  "stats_row i v =
     \<lparr>stats_id = i, stats_date = ist_date v,
      stats_totalMinutes = or_default (ist_totalMinutes v) 0,
      stats_sessionsCompleted = or_default (ist_sessionsCompleted v) 0,
      stats_streak = or_default (ist_streak v) 0\<rparr>"

text \<open>
  \<open>set(insertStats)\<close>: the payload's \<open>date\<close> is always defined, so the field set is never
  empty.
\<close>

definition set_stats :: "InsertStudyStats \<Rightarrow> StudyStats \<Rightarrow> StudyStats" where
  "set_stats v r =
     r\<lparr>stats_date := ist_date v,
       stats_totalMinutes := or_default (ist_totalMinutes v) (stats_totalMinutes r),
       stats_sessionsCompleted :=
         or_default (ist_sessionsCompleted v) (stats_sessionsCompleted r),
       stats_streak := or_default (ist_streak v) (stats_streak r)\<rparr>"

definition getStudyStats :: "store \<Rightarrow> db_error + StudyStats list" where
  "getStudyStats st = Inr (studyStats st)"

definition getStudyStatsByDate :: "store \<Rightarrow> string \<Rightarrow> db_error + StudyStats option" where
  "getStudyStatsByDate st date =
     Inr (first (select_where (\<lambda>r. stats_date r = date) (studyStats st)))"

text \<open>
  The result is \<open>updated\<close> or \<open>created\<close>; \<open>updated\<close> is the first row the update
  returned, \<open>undefined\<close> (\<open>None\<close>) if it returned none.
\<close>

definition createOrUpdateStudyStats ::
  "store \<Rightarrow> InsertStudyStats \<Rightarrow> (db_error + StudyStats option) \<times> store" where
  "createOrUpdateStudyStats st insertStats =
     (case getStudyStatsByDate st (ist_date insertStats) of
        Inl e \<Rightarrow> (Inl e, st)
      | Inr (Some existing) \<Rightarrow>
          (let (rows, returned) =
                 update_where (set_stats insertStats)
                   (\<lambda>r. stats_date r = ist_date insertStats) (studyStats st)
           in (Inr (first returned), st\<lparr>studyStats := rows\<rparr>))
      | Inr None \<Rightarrow>
          (let created = stats_row (study_stats_id_seq st) insertStats;
               st1 = st\<lparr>study_stats_id_seq := study_stats_id_seq st + 1\<rparr>
           in case insert_returning stats_id created (studyStats st) of
                Inl e \<Rightarrow> (Inl e, st1)
              | Inr rows \<Rightarrow> (Inr (Some created), st1\<lparr>studyStats := rows\<rparr>)))"

subsection \<open>DatabaseStorage: users\<close>


definition getUserByUsername :: "store \<Rightarrow> string \<Rightarrow> db_error + User option" where
  "getUserByUsername st username =
     Inr (first (select_where (\<lambda>r. user_username r = username) (users st)))"

definition createUser :: "store \<Rightarrow> InsertUser \<Rightarrow> (db_error + User) \<times> store" where
  "createUser st insertUser =
     (let user = \<lparr>user_id = users_id_seq st, user_username = iu_username insertUser,
                  user_password = iu_password insertUser\<rparr>;
          st1 = st\<lparr>users_id_seq := users_id_seq st + 1\<rparr>
      in if iu_username insertUser \<in> user_username ` set (users st)
         then (Inl UniqueViolation, st1)
         else case insert_returning user_id user (users st) of
                Inl e \<Rightarrow> (Inl e, st1)
              | Inr rows \<Rightarrow> (Inr user, st1\<lparr>users := rows\<rparr>))"

subsection \<open>Request bodies and the insert schemas\<close>

text \<open>
  A request body is the JSON value the body parser produced. A number is either an integer
  or has a fractional part (\<open>JFrac\<close>; every numeric column is an integer, so its value
  plays no role). In an object a later binding of a key overrides an earlier one.
\<close>

datatype json =
  JNull | JBool bool | JInt int | JFrac | JStr string | JArr "json list"
| JObj "(string \<times> json) list"

definition field :: "(string \<times> json) list \<Rightarrow> string \<Rightarrow> json option" where
  "field kvs k = map_of (rev kvs) k"

text \<open>
  A validation issue: the path of the field, the type expected and the type received.
\<close>

datatype issue = Issue (issue_path: "string list") (issue_expected: string) (issue_received: string)

definition parsed_type :: "json option \<Rightarrow> string" where
  "parsed_type v =
     (case v of None \<Rightarrow> ''undefined'' | Some JNull \<Rightarrow> ''null'' | Some (JBool _) \<Rightarrow> ''boolean''
      | Some (JInt _) \<Rightarrow> ''number'' | Some JFrac \<Rightarrow> ''number'' | Some (JStr _) \<Rightarrow> ''string''
      | Some (JArr _) \<Rightarrow> ''array'' | Some (JObj _) \<Rightarrow> ''object'')"

definition z_string :: "string \<Rightarrow> json option \<Rightarrow> issue list + string" where
  "z_string k v =
     (case v of Some (JStr x) \<Rightarrow> Inr x | _ \<Rightarrow> Inl [Issue [k] ''string'' (parsed_type v)])"

definition z_int :: "string \<Rightarrow> json option \<Rightarrow> issue list + int" where
  "z_int k v =
     (case v of Some (JInt x) \<Rightarrow> Inr x
      | Some JFrac \<Rightarrow> Inl [Issue [k] ''integer'' ''float'']
      | _ \<Rightarrow> Inl [Issue [k] ''number'' (parsed_type v)])"

definition z_boolean :: "string \<Rightarrow> json option \<Rightarrow> issue list + bool" where
  "z_boolean k v =
     (case v of Some (JBool x) \<Rightarrow> Inr x | _ \<Rightarrow> Inl [Issue [k] ''boolean'' (parsed_type v)])"

definition z_optional ::
  "(string \<Rightarrow> json option \<Rightarrow> issue list + 'a) \<Rightarrow> string \<Rightarrow> json option \<Rightarrow> issue list + 'a option"
  where
  "z_optional z k v = (case v of None \<Rightarrow> Inr None | Some _ \<Rightarrow> map_sum (\<lambda>e. e) Some (z k v))"

definition z_nullable ::
  "(string \<Rightarrow> json option \<Rightarrow> issue list + 'a) \<Rightarrow> string \<Rightarrow> json option \<Rightarrow> issue list + 'a option"
  where
  "z_nullable z k v = (case v of Some JNull \<Rightarrow> Inr None | _ \<Rightarrow> map_sum (\<lambda>e. e) Some (z k v))"

text \<open>
  An object schema checks every key of its shape, in order, and reports the issues of all
  of them; keys outside the shape are dropped. \<open>z_key\<close> adds one key to the object under
  construction.
\<close>

definition z_key :: "issue list + ('a \<Rightarrow> 'b) \<Rightarrow> issue list + 'a \<Rightarrow> issue list + 'b" where
  "z_key obj val =
     (case obj of
        Inr f \<Rightarrow> (case val of Inr x \<Rightarrow> Inr (f x) | Inl e \<Rightarrow> Inl e)
      | Inl es \<Rightarrow> (case val of Inr x \<Rightarrow> Inl es | Inl e \<Rightarrow> Inl (es @ e)))"

definition z_object ::
  "((string \<times> json) list \<Rightarrow> issue list + 'a) \<Rightarrow> json \<Rightarrow> issue list + 'a" where
  "z_object shape body =
     (case body of JObj kvs \<Rightarrow> shape kvs
      | _ \<Rightarrow> Inl [Issue [] ''object'' (parsed_type (Some body))])"

definition insertSubjectSchema :: "json \<Rightarrow> issue list + InsertSubject" where
  "insertSubjectSchema =
     z_object (\<lambda>kvs.
       z_key (z_key (z_key (z_key (z_key (z_key
         (Inr (\<lambda>name color icon currentTopic progress totalHours.
            \<lparr>is_name = name, is_color = color, is_icon = icon,
             is_currentTopic = currentTopic, is_progress = progress,
             is_totalHours = totalHours\<rparr>))
         (z_string ''name'' (field kvs ''name'')))
         (z_optional z_string ''color'' (field kvs ''color'')))
         (z_optional z_string ''icon'' (field kvs ''icon'')))
         (z_optional (z_nullable z_string) ''currentTopic'' (field kvs ''currentTopic'')))
         (z_optional z_int ''progress'' (field kvs ''progress'')))
         (z_optional z_int ''totalHours'' (field kvs ''totalHours'')))"

definition insertStudySessionSchema :: "json \<Rightarrow> issue list + InsertStudySession" where
  "insertStudySessionSchema =
     z_object (\<lambda>kvs.
       z_key (z_key (z_key (z_key (z_key (z_key (z_key (z_key
         (Inr (\<lambda>subjectId title description startTime endTime date status actualDuration.
            \<lparr>ss_subjectId = subjectId, ss_title = title, ss_description = description,
             ss_startTime = startTime, ss_endTime = endTime, ss_date = date,
             ss_status = status, ss_actualDuration = actualDuration\<rparr>))
         (z_int ''subjectId'' (field kvs ''subjectId'')))
         (z_string ''title'' (field kvs ''title'')))
         (z_optional (z_nullable z_string) ''description'' (field kvs ''description'')))
         (z_string ''startTime'' (field kvs ''startTime'')))
         (z_string ''endTime'' (field kvs ''endTime'')))
         (z_string ''date'' (field kvs ''date'')))
         (z_optional z_string ''status'' (field kvs ''status'')))
         (z_optional (z_nullable z_int) ''actualDuration'' (field kvs ''actualDuration'')))"

definition insertNoteSchema :: "json \<Rightarrow> issue list + InsertNote" where
  "insertNoteSchema =
     z_object (\<lambda>kvs.
       z_key (z_key (z_key (z_key
         (Inr (\<lambda>subjectId title content createdAt.
            \<lparr>in_subjectId = subjectId, in_title = title, in_content = content,
             in_createdAt = createdAt\<rparr>))
         (z_int ''subjectId'' (field kvs ''subjectId'')))
         (z_string ''title'' (field kvs ''title'')))
         (z_string ''content'' (field kvs ''content'')))
         (z_string ''createdAt'' (field kvs ''createdAt'')))"

definition insertGoalSchema :: "json \<Rightarrow> issue list + InsertGoal" where
  "insertGoalSchema =
     z_object (\<lambda>kvs.
       z_key (z_key (z_key (z_key (z_key
         (Inr (\<lambda>title description targetDate progress isCompleted.
            \<lparr>ig_title = title, ig_description = description, ig_targetDate = targetDate,
             ig_progress = progress, ig_isCompleted = isCompleted\<rparr>))
         (z_string ''title'' (field kvs ''title'')))
         (z_optional (z_nullable z_string) ''description'' (field kvs ''description'')))
         (z_string ''targetDate'' (field kvs ''targetDate'')))
         (z_optional z_int ''progress'' (field kvs ''progress'')))
         (z_optional z_boolean ''isCompleted'' (field kvs ''isCompleted'')))"

definition insertStudyStatsSchema :: "json \<Rightarrow> issue list + InsertStudyStats" where
  "insertStudyStatsSchema =
     z_object (\<lambda>kvs.
       z_key (z_key (z_key (z_key
         (Inr (\<lambda>date totalMinutes sessionsCompleted streak.
            \<lparr>ist_date = date, ist_totalMinutes = totalMinutes,
             ist_sessionsCompleted = sessionsCompleted, ist_streak = streak\<rparr>))
         (z_string ''date'' (field kvs ''date'')))
         (z_optional z_int ''totalMinutes'' (field kvs ''totalMinutes'')))
         (z_optional z_int ''sessionsCompleted'' (field kvs ''sessionsCompleted'')))
         (z_optional z_int ''streak'' (field kvs ''streak'')))"

subsection \<open>\<open>parseInt\<close>\<close>

text \<open>
  \<open>parseInt(s)\<close> without a radix: leading white space (tab, line feed, vertical tab,
  form feed, carriage return, space) is skipped, then an optional sign, then the prefix
  \<open>0x\<close> or \<open>0X\<close> selects radix 16 (otherwise 10); the longest run of digits of that
  radix is the value, and without any digit the result is \<open>NaN\<close>.
\<close>

definition is_white_space :: "char \<Rightarrow> bool" where
  "is_white_space c \<longleftrightarrow> (of_char c :: nat) \<in> {9, 10, 11, 12, 13, 32}"

definition digit_of :: "nat \<Rightarrow> char \<Rightarrow> nat option" where
  "digit_of R c =
     (let n = (of_char c :: nat);
          d = (if 48 \<le> n \<and> n \<le> 57 then Some (n - 48)
               else if 97 \<le> n \<and> n \<le> 122 then Some (n - 87)
               else if 65 \<le> n \<and> n \<le> 90 then Some (n - 55)
               else None)
      in case d of None \<Rightarrow> None | Some x \<Rightarrow> if x < R then Some x else None)"

fun parse_digits :: "nat \<Rightarrow> string \<Rightarrow> nat list" where
  "parse_digits R [] = []"
| "parse_digits R (c # cs) =
     (case digit_of R c of None \<Rightarrow> [] | Some d \<Rightarrow> d # parse_digits R cs)"


definition radix_value :: "nat \<Rightarrow> nat list \<Rightarrow> nat" where
  "radix_value R ds = foldl (\<lambda>acc d. acc * R + d) 0 ds"

definition parseInt :: "string \<Rightarrow> number" where
  "parseInt s =
     (let S = dropWhile is_white_space s;
          sign = (if take 1 S = ''-'' then - 1 else 1 :: int);
          S1 = (if take 1 S = ''+'' \<or> take 1 S = ''-'' then drop 1 S else S);
          (R, S2) = (if take 2 S1 = ''0x'' \<or> take 2 S1 = ''0X'' then (16, drop 2 S1)
                     else (10, S1));
          Z = parse_digits R S2
      in if Z = [] then NaN else Integer (sign * int (radix_value R Z)))"

text \<open>
  The decimal numeral of an integer, as a client writes an id into a path or a query.
\<close>

definition digit_char :: "nat \<Rightarrow> char" where
  "digit_char d = char_of (48 + d)"




subsection \<open>registerRoutes: the request handlers\<close>

text \<open>
  A response is a status and a body: the JSON of a value, \<open>{message}\<close>,
  \<open>{message, errors}\<close>, or nothing. \<open>res.json\<close> without \<open>res.status\<close> answers 200. A
  path parameter is the string matched by \<open>:id\<close>, a query parameter is a string or
  absent, and an empty string is falsy.
\<close>

datatype 'a body = Json 'a | Message string | Invalid string "issue list" | Empty

datatype 'a response = Response (status: nat) (body: "'a body")

definition GET_subjects :: "store \<Rightarrow> Subject list response" where
  "GET_subjects st =
     (case getSubjects st of
        Inr subjects' \<Rightarrow> Response 200 (Json subjects')
      | Inl error \<Rightarrow> Response 500 (Message ''Failed to fetch subjects''))"

definition GET_subjects_id :: "store \<Rightarrow> string \<Rightarrow> Subject response" where
  "GET_subjects_id st id_param =
     (case getSubject st (parseInt id_param) of
        Inr None \<Rightarrow> Response 404 (Message ''Subject not found'')
      | Inr (Some subject) \<Rightarrow> Response 200 (Json subject)
      | Inl error \<Rightarrow> Response 500 (Message ''Failed to fetch subject''))"

definition POST_subjects :: "store \<Rightarrow> json \<Rightarrow> Subject response \<times> store" where
  "POST_subjects st req_body =
     (case insertSubjectSchema req_body of
        Inl issues \<Rightarrow> (Response 400 (Invalid ''Invalid subject data'' issues), st)
      | Inr data \<Rightarrow>
          (case createSubject st data of
             (Inr subject, st') \<Rightarrow> (Response 201 (Json subject), st')
           | (Inl error, st') \<Rightarrow> (Response 500 (Message ''Failed to create subject''), st')))"

definition PATCH_subjects_id ::
  "store \<Rightarrow> string \<Rightarrow> PartialSubject \<Rightarrow> Subject response \<times> store" where
  "PATCH_subjects_id st id_param req_body =
     (case updateSubject st (parseInt id_param) req_body of
        (Inr None, st') \<Rightarrow> (Response 404 (Message ''Subject not found''), st')
      | (Inr (Some subject), st') \<Rightarrow> (Response 200 (Json subject), st')
      | (Inl error, st') \<Rightarrow> (Response 500 (Message ''Failed to update subject''), st'))"

definition DELETE_subjects_id :: "store \<Rightarrow> string \<Rightarrow> unit response \<times> store" where
  "DELETE_subjects_id st id_param =
     (case deleteSubject st (parseInt id_param) of
        (Inr success, st') \<Rightarrow>
          if \<not> success then (Response 404 (Message ''Subject not found''), st')
          else (Response 204 Empty, st')
      | (Inl error, st') \<Rightarrow> (Response 500 (Message ''Failed to delete subject''), st'))"

definition GET_study_sessions :: "store \<Rightarrow> string option \<Rightarrow> StudySession list response" where
  "GET_study_sessions st date =
     (case (case date of
              Some d \<Rightarrow> if d \<noteq> [] then getStudySessionsByDate st d else getStudySessions st
            | None \<Rightarrow> getStudySessions st) of
        Inr sessions \<Rightarrow> Response 200 (Json sessions)
      | Inl error \<Rightarrow> Response 500 (Message ''Failed to fetch study sessions''))"

definition POST_study_sessions :: "store \<Rightarrow> json \<Rightarrow> StudySession response \<times> store" where
  "POST_study_sessions st req_body =
     (case insertStudySessionSchema req_body of
        Inl issues \<Rightarrow> (Response 400 (Invalid ''Invalid session data'' issues), st)
      | Inr data \<Rightarrow>
          (case createStudySession st data of
             (Inr session, st') \<Rightarrow> (Response 201 (Json session), st')
           | (Inl error, st') \<Rightarrow>
               (Response 500 (Message ''Failed to create study session''), st')))"

definition PATCH_study_sessions_id ::
  "store \<Rightarrow> string \<Rightarrow> PartialStudySession \<Rightarrow> StudySession response \<times> store" where
  "PATCH_study_sessions_id st id_param req_body =
     (case updateStudySession st (parseInt id_param) req_body of
        (Inr None, st') \<Rightarrow> (Response 404 (Message ''Study session not found''), st')
      | (Inr (Some session), st') \<Rightarrow> (Response 200 (Json session), st')
      | (Inl error, st') \<Rightarrow> (Response 500 (Message ''Failed to update study session''), st'))"

definition DELETE_study_sessions_id :: "store \<Rightarrow> string \<Rightarrow> unit response \<times> store" where
  "DELETE_study_sessions_id st id_param =
     (case deleteStudySession st (parseInt id_param) of
        (Inr success, st') \<Rightarrow>
          if \<not> success then (Response 404 (Message ''Study session not found''), st')
          else (Response 204 Empty, st')
      | (Inl error, st') \<Rightarrow> (Response 500 (Message ''Failed to delete study session''), st'))"

definition GET_notes :: "store \<Rightarrow> string option \<Rightarrow> Note list response" where
  "GET_notes st subjectId =
     (case (case subjectId of
              Some s \<Rightarrow> if s \<noteq> [] then getNotesBySubject st (parseInt s) else getNotes st
            | None \<Rightarrow> getNotes st) of
        Inr notes' \<Rightarrow> Response 200 (Json notes')
      | Inl error \<Rightarrow> Response 500 (Message ''Failed to fetch notes''))"

definition POST_notes :: "store \<Rightarrow> json \<Rightarrow> Note response \<times> store" where
  "POST_notes st req_body =
     (case insertNoteSchema req_body of
        Inl issues \<Rightarrow> (Response 400 (Invalid ''Invalid note data'' issues), st)
      | Inr data \<Rightarrow>
          (case createNote st data of
             (Inr note, st') \<Rightarrow> (Response 201 (Json note), st')
           | (Inl error, st') \<Rightarrow> (Response 500 (Message ''Failed to create note''), st')))"

definition PATCH_notes_id :: "store \<Rightarrow> string \<Rightarrow> PartialNote \<Rightarrow> Note response \<times> store" where
  "PATCH_notes_id st id_param req_body =
     (case updateNote st (parseInt id_param) req_body of
        (Inr None, st') \<Rightarrow> (Response 404 (Message ''Note not found''), st')
      | (Inr (Some note), st') \<Rightarrow> (Response 200 (Json note), st')
      | (Inl error, st') \<Rightarrow> (Response 500 (Message ''Failed to update note''), st'))"

definition DELETE_notes_id :: "store \<Rightarrow> string \<Rightarrow> unit response \<times> store" where
  "DELETE_notes_id st id_param =
     (case deleteNote st (parseInt id_param) of
        (Inr success, st') \<Rightarrow>
          if \<not> success then (Response 404 (Message ''Note not found''), st')
          else (Response 204 Empty, st')
      | (Inl error, st') \<Rightarrow> (Response 500 (Message ''Failed to delete note''), st'))"

definition GET_goals :: "store \<Rightarrow> Goal list response" where
  "GET_goals st =
     (case getGoals st of
        Inr goals' \<Rightarrow> Response 200 (Json goals')
      | Inl error \<Rightarrow> Response 500 (Message ''Failed to fetch goals''))"

definition POST_goals :: "store \<Rightarrow> json \<Rightarrow> Goal response \<times> store" where
  "POST_goals st req_body =
     (case insertGoalSchema req_body of
        Inl issues \<Rightarrow> (Response 400 (Invalid ''Invalid goal data'' issues), st)
      | Inr data \<Rightarrow>
          (case createGoal st data of
             (Inr goal, st') \<Rightarrow> (Response 201 (Json goal), st')
           | (Inl error, st') \<Rightarrow> (Response 500 (Message ''Failed to create goal''), st')))"

definition PATCH_goals_id :: "store \<Rightarrow> string \<Rightarrow> PartialGoal \<Rightarrow> Goal response \<times> store" where
  "PATCH_goals_id st id_param req_body =
     (case updateGoal st (parseInt id_param) req_body of
        (Inr None, st') \<Rightarrow> (Response 404 (Message ''Goal not found''), st')
      | (Inr (Some goal), st') \<Rightarrow> (Response 200 (Json goal), st')
      | (Inl error, st') \<Rightarrow> (Response 500 (Message ''Failed to update goal''), st'))"

definition DELETE_goals_id :: "store \<Rightarrow> string \<Rightarrow> unit response \<times> store" where
  "DELETE_goals_id st id_param =
     (case deleteGoal st (parseInt id_param) of
        (Inr success, st') \<Rightarrow>
          if \<not> success then (Response 404 (Message ''Goal not found''), st')
          else (Response 204 Empty, st')
      | (Inl error, st') \<Rightarrow> (Response 500 (Message ''Failed to delete goal''), st'))"

text \<open>
  With a date the body is one row or \<open>null\<close> (\<open>Inl\<close>), without it the list of all rows
  (\<open>Inr\<close>).
\<close>

definition GET_study_stats ::
  "store \<Rightarrow> string option \<Rightarrow> (StudyStats option + StudyStats list) response" where
  "GET_study_stats st date =
     (case (case date of
              Some d \<Rightarrow> if d \<noteq> [] then map_sum (\<lambda>e. e) Inl (getStudyStatsByDate st d)
                        else map_sum (\<lambda>e. e) Inr (getStudyStats st)
            | None \<Rightarrow> map_sum (\<lambda>e. e) Inr (getStudyStats st)) of
        Inr stats \<Rightarrow> Response 200 (Json stats)
      | Inl error \<Rightarrow> Response 500 (Message ''Failed to fetch study stats''))"

definition POST_study_stats :: "store \<Rightarrow> json \<Rightarrow> StudyStats option response \<times> store" where
  "POST_study_stats st req_body =
     (case insertStudyStatsSchema req_body of
        Inl issues \<Rightarrow> (Response 400 (Invalid ''Invalid stats data'' issues), st)
      | Inr data \<Rightarrow>
          (case createOrUpdateStudyStats st data of
             (Inr stats, st') \<Rightarrow> (Response 200 (Json stats), st')
           | (Inl error, st') \<Rightarrow>
               (Response 500 (Message ''Failed to update study stats''), st')))"

subsection \<open>Sequential execution and the constraints of the tables\<close>




text \<open>
  What holds of every store these requests lead to: the ids of a table are distinct
  (\<open>primaryKey\<close>) and below the next value of its sequence (\<open>serial\<close>: no request sets
  an id itself), the user names are distinct (\<open>unique\<close>), and a date has at most one
  row of study stats. The last is no constraint of the table; the lookup in
  \<open>createOrUpdateStudyStats\<close> maintains it as long as requests are handled one after
  the other.
\<close>

definition wf_table :: "('r \<Rightarrow> int) \<Rightarrow> 'r list \<Rightarrow> int \<Rightarrow> bool" where
  "wf_table key rows seq \<longleftrightarrow> distinct (map key rows) \<and> (\<forall>r\<in>set rows. key r < seq)"

definition wf_store :: "store \<Rightarrow> bool" where
  "wf_store st \<longleftrightarrow>
     wf_table user_id (users st) (users_id_seq st) \<and>
     distinct (map user_username (users st)) \<and>
     wf_table subject_id (subjects st) (subjects_id_seq st) \<and>
     wf_table session_id (studySessions st) (study_sessions_id_seq st) \<and>
     wf_table note_id (notes st) (notes_id_seq st) \<and>
     wf_table goal_id (goals st) (goals_id_seq st) \<and>
     wf_table stats_id (studyStats st) (study_stats_id_seq st) \<and>
     distinct (map stats_date (studyStats st))"


subsection \<open>A store for the examples\<close>


definition example_store :: store where
  "example_store =
     \<lparr>users = [], users_id_seq = 1,
      subjects = [\<lparr>subject_id = 1, subject_name = ''Math'', subject_color = ''#4F46E5'',
        subject_icon = ''fas fa-book'', subject_currentTopic = None, subject_progress = 0,
        subject_totalHours = 0\<rparr>],
      subjects_id_seq = 2,
      studySessions = [\<lparr>session_id = 1, session_subjectId = 1, session_title = ''Algebra'',
        session_description = None, session_startTime = ''09:00'',
        session_endTime = ''10:00'', session_date = ''2024-05-01'',
        session_status = ''upcoming'', session_actualDuration = Some 0\<rparr>],
      study_sessions_id_seq = 2,
      notes = [\<lparr>note_id = 1, note_subjectId = 1, note_title = ''Groups'',
          note_content = ''closure'', note_createdAt = ''2024-05-02''\<rparr>,
        \<lparr>note_id = 2, note_subjectId = 2, note_title = ''Verbs'',
          note_content = ''tenses'', note_createdAt = ''2024-05-03''\<rparr>,
        \<lparr>note_id = 3, note_subjectId = 1, note_title = ''Rings'',
          note_content = ''ideals'', note_createdAt = ''2024-05-01''\<rparr>],
      notes_id_seq = 4,
      goals = [\<lparr>goal_id = 1, goal_title = ''Pass'', goal_description = None,
        goal_targetDate = ''2024-06-30'', goal_progress = 0, goal_isCompleted = False\<rparr>],
      goals_id_seq = 2,
      studyStats = [\<lparr>stats_id = 1, stats_date = ''2024-05-01'', stats_totalMinutes = 30,
        stats_sessionsCompleted = 0, stats_streak = 0\<rparr>],
      study_stats_id_seq = 2\<rparr>"

section \<open>Properties\<close>

subsection \<open>Evaluation on concrete requests\<close>

lemmas statement_defs =
  first_def select_where_def insert_returning_def update_where_def delete_where_def
  or_default_def order_by_def

lemmas schema_defs =
  z_object_def z_key_def z_string_def z_int_def z_boolean_def z_optional_def z_nullable_def
  field_def parsed_type_def

lemmas parseInt_defs = parseInt_def is_white_space_def digit_of_def radix_value_def Let_def

subsection \<open>The statements and the constraints of the tables\<close>



lemma wf_table_empty: "0 < seq \<Longrightarrow> wf_table key [] seq"
  by (simp add: wf_table_def)


lemma wf_table_seq: "wf_table key rows seq \<Longrightarrow> wf_table key rows (seq + 1)"
  by (fastforce simp: wf_table_def)

lemma wf_table_insert:
  "wf_table key rows seq \<Longrightarrow> key r = seq \<Longrightarrow> wf_table key (rows @ [r]) (seq + 1)"
  by (fastforce simp: wf_table_def)

lemma insert_returning_fresh:
  "wf_table key rows (key r) \<Longrightarrow> insert_returning key r rows = Inr (rows @ [r])"
  by (auto simp: insert_returning_def wf_table_def)




lemma subject_id_set [simp]: "subject_id (set_subject u r) = subject_id r"
  by (simp add: set_subject_def)

lemma session_id_set [simp]: "session_id (set_session u r) = session_id r"
  by (simp add: set_session_def)

lemma note_id_set [simp]: "note_id (set_note u r) = note_id r"
  by (simp add: set_note_def)

lemma goal_id_set [simp]: "goal_id (set_goal u r) = goal_id r"
  by (simp add: set_goal_def)

lemma stats_id_set [simp]: "stats_id (set_stats v r) = stats_id r"
  by (simp add: set_stats_def)

subsection \<open>Every store reached by sequential requests satisfies the constraints\<close>

















lemma wf_createUser: "wf_store st \<Longrightarrow> wf_store (snd (createUser st v))"
  by (auto simp: wf_store_def createUser_def Let_def insert_returning_fresh wf_table_insert
      wf_table_seq)



lemma snd_DELETE_subjects_id:
  "snd (DELETE_subjects_id st p) = snd (deleteSubject st (parseInt p))"
  by (simp add: DELETE_subjects_id_def split: sum.splits prod.splits)















subsection \<open>Collections of definitions, for evaluation\<close>

lemmas storage_defs =
  getSubject_def createSubject_def updateSubject_def deleteSubject_def
  getStudySession_def createStudySession_def updateStudySession_def deleteStudySession_def
  getStudySessionsByDate_def getStudySessions_def
  getNote_def createNote_def updateNote_def deleteNote_def getNotes_def getNotesBySubject_def
  getGoal_def createGoal_def updateGoal_def deleteGoal_def
  getStudyStatsByDate_def createOrUpdateStudyStats_def getStudyStats_def
  subject_row_def session_row_def note_row_def goal_row_def stats_row_def
  set_subject_def set_session_def set_note_def set_goal_def set_stats_def
  no_values_subject_def no_values_session_def no_values_note_def no_values_goal_def


lemmas handler_defs =
  GET_subjects_id_def POST_subjects_def PATCH_subjects_id_def DELETE_subjects_id_def
  GET_study_sessions_def POST_study_sessions_def PATCH_study_sessions_id_def
  DELETE_study_sessions_id_def
  GET_notes_def POST_notes_def PATCH_notes_id_def DELETE_notes_id_def
  POST_goals_def PATCH_goals_id_def DELETE_goals_id_def
  GET_study_stats_def POST_study_stats_def

subsection \<open>The example store\<close>



subsection \<open>An update without values\<close>

text \<open>
  C10: for every id, a PATCH request whose body is the empty object reaches the update of
  the storage layer with an empty field set; the update throws, and the handler answers
  500 and leaves the store as it was, whether or not a row with that id exists. It is
  not answered 200.
\<close>

theorem patch_empty_body_status_500:
  "updateSubject st (parseInt id_param)
       \<lparr>ps_name = None, ps_color = None, ps_icon = None, ps_currentTopic = None,
        ps_progress = None, ps_totalHours = None\<rparr>
     = (Inl NoValuesToSet, st)
   \<and> PATCH_subjects_id st id_param
       \<lparr>ps_name = None, ps_color = None, ps_icon = None, ps_currentTopic = None,
        ps_progress = None, ps_totalHours = None\<rparr>
     = (Response 500 (Message ''Failed to update subject''), st)
   \<and> PATCH_study_sessions_id st id_param
       \<lparr>pss_subjectId = None, pss_title = None, pss_description = None,
        pss_startTime = None, pss_endTime = None, pss_date = None, pss_status = None,
        pss_actualDuration = None\<rparr>
     = (Response 500 (Message ''Failed to update study session''), st)
   \<and> PATCH_notes_id st id_param
       \<lparr>pn_subjectId = None, pn_title = None, pn_content = None, pn_createdAt = None\<rparr>
     = (Response 500 (Message ''Failed to update note''), st)
   \<and> PATCH_goals_id st id_param
       \<lparr>pg_title = None, pg_description = None, pg_targetDate = None, pg_progress = None,
        pg_isCompleted = None\<rparr>
     = (Response 500 (Message ''Failed to update goal''), st)"
  by (simp add: PATCH_subjects_id_def updateSubject_def no_values_subject_def
      PATCH_study_sessions_id_def updateStudySession_def no_values_session_def
      PATCH_notes_id_def updateNote_def no_values_note_def
      PATCH_goals_id_def updateGoal_def no_values_goal_def)

text \<open>
  The same on a store that holds the subject with id 1: the row is there (GET answers 200)
  and the empty PATCH is answered 500.
\<close>

theorem patch_empty_body_existing_row:
  "PATCH_subjects_id
     (snd (POST_subjects empty_store (JObj [(''name'', JStr ''Math'')]))) ''1''
     \<lparr>ps_name = None, ps_color = None, ps_icon = None, ps_currentTopic = None,
      ps_progress = None, ps_totalHours = None\<rparr>
   = (Response 500 (Message ''Failed to update subject''),
      snd (POST_subjects empty_store (JObj [(''name'', JStr ''Math'')])))
   \<and> GET_subjects_id (snd (POST_subjects empty_store (JObj [(''name'', JStr ''Math'')]))) ''1''
     = Response 200 (Json \<lparr>subject_id = 1, subject_name = ''Math'',
         subject_color = ''#4F46E5'', subject_icon = ''fas fa-book'',
         subject_currentTopic = None, subject_progress = 0, subject_totalHours = 0\<rparr>)"
  using patch_empty_body_status_500
    [of "snd (POST_subjects empty_store (JObj [(''name'', JStr ''Math'')]))" "''1''"]
  by (simp add: GET_subjects_id_def getSubject_def POST_subjects_def insertSubjectSchema_def
      createSubject_def subject_row_def empty_store_def
      statement_defs schema_defs parseInt_defs)

subsection \<open>Ids that are absent\<close>






























subsection \<open>Deleting\<close>

lemma delete_where_present:
  "\<exists>r\<in>set rows. p r \<Longrightarrow> 0 < snd (delete_where p rows)"
  by (simp add: delete_where_def filter_empty_conv)

lemma delete_where_again:
  "delete_where p (fst (delete_where p rows)) = (fst (delete_where p rows), 0)"
  by (simp add: delete_where_def filter_empty_conv)

lemma delete_where_count:
  "0 < snd (delete_where p rows) \<longleftrightarrow> fst (delete_where p rows) \<noteq> rows"
  by (auto simp: delete_where_def filter_empty_conv filter_id_conv)

lemma delete_where_rows: "fst (delete_where p rows) = filter (\<lambda>r. \<not> p r) rows"
  by (simp add: delete_where_def)

lemma deleteSubject_store:
  "snd (deleteSubject st (Integer i)) = st\<lparr>subjects := filter (\<lambda>r. subject_id r \<noteq> i) (subjects st)\<rparr>"
  by (simp add: deleteSubject_def delete_where_def)

lemma deleteSubject_NaN: "deleteSubject st NaN = (Inl InvalidParameter, st)"
  by (simp add: deleteSubject_def)

lemma deleteSubject_present:
  assumes "i \<in> subject_id ` set (subjects st)"
  shows "fst (deleteSubject st (Integer i)) = Inr True"
proof -
  from assms have "\<exists>r\<in>set (subjects st). subject_id r = i" by auto
  then have "0 < snd (delete_where (\<lambda>r. subject_id r = i) (subjects st))"
    by (rule delete_where_present)
  then show ?thesis
    by (simp add: deleteSubject_def case_prod_beta)
qed

lemma deleteSubject_again:
  "deleteSubject (snd (deleteSubject st (Integer i))) (Integer i)
   = (Inr False, snd (deleteSubject st (Integer i)))"
  by (simp add: deleteSubject_def delete_where_def filter_empty_conv)

lemma deleteSubject_removed:
  "fst (deleteSubject st n) = Inr True \<longleftrightarrow> subjects (snd (deleteSubject st n)) \<noteq> subjects st"
  by (cases n) (auto simp: deleteSubject_def delete_where_def filter_empty_conv filter_id_conv)

lemma DELETE_subjects_id_present:
  "parseInt p = Integer i \<Longrightarrow> i \<in> subject_id ` set (subjects st) \<Longrightarrow>
   DELETE_subjects_id st p = (Response 204 Empty, snd (deleteSubject st (Integer i)))"
  using deleteSubject_present [of i st]
  by (cases "deleteSubject st (Integer i)") (simp add: DELETE_subjects_id_def)

lemma DELETE_subjects_id_again:
  "parseInt p = Integer i \<Longrightarrow>
   DELETE_subjects_id (snd (deleteSubject st (Integer i))) p
   = (Response 404 (Message ''Subject not found''), snd (deleteSubject st (Integer i)))"
  by (simp add: DELETE_subjects_id_def deleteSubject_again)

lemma deleteStudySession_store:
  "snd (deleteStudySession st (Integer i)) = st\<lparr>studySessions := filter (\<lambda>r. session_id r \<noteq> i) (studySessions st)\<rparr>"
  by (simp add: deleteStudySession_def delete_where_def)

lemma deleteStudySession_NaN: "deleteStudySession st NaN = (Inl InvalidParameter, st)"
  by (simp add: deleteStudySession_def)

lemma deleteStudySession_present:
  assumes "i \<in> session_id ` set (studySessions st)"
  shows "fst (deleteStudySession st (Integer i)) = Inr True"
proof -
  from assms have "\<exists>r\<in>set (studySessions st). session_id r = i" by auto
  then have "0 < snd (delete_where (\<lambda>r. session_id r = i) (studySessions st))"
    by (rule delete_where_present)
  then show ?thesis
    by (simp add: deleteStudySession_def case_prod_beta)
qed

lemma deleteStudySession_again:
  "deleteStudySession (snd (deleteStudySession st (Integer i))) (Integer i)
   = (Inr False, snd (deleteStudySession st (Integer i)))"
  by (simp add: deleteStudySession_def delete_where_def filter_empty_conv)

lemma deleteStudySession_removed:
  "fst (deleteStudySession st n) = Inr True \<longleftrightarrow> studySessions (snd (deleteStudySession st n)) \<noteq> studySessions st"
  by (cases n) (auto simp: deleteStudySession_def delete_where_def filter_empty_conv filter_id_conv)

lemma DELETE_study_sessions_id_present:
  "parseInt p = Integer i \<Longrightarrow> i \<in> session_id ` set (studySessions st) \<Longrightarrow>
   DELETE_study_sessions_id st p = (Response 204 Empty, snd (deleteStudySession st (Integer i)))"
  using deleteStudySession_present [of i st]
  by (cases "deleteStudySession st (Integer i)") (simp add: DELETE_study_sessions_id_def)

lemma DELETE_study_sessions_id_again:
  "parseInt p = Integer i \<Longrightarrow>
   DELETE_study_sessions_id (snd (deleteStudySession st (Integer i))) p
   = (Response 404 (Message ''Study session not found''), snd (deleteStudySession st (Integer i)))"
  by (simp add: DELETE_study_sessions_id_def deleteStudySession_again)

lemma deleteNote_store:
  "snd (deleteNote st (Integer i)) = st\<lparr>notes := filter (\<lambda>r. note_id r \<noteq> i) (notes st)\<rparr>"
  by (simp add: deleteNote_def delete_where_def)

lemma deleteNote_NaN: "deleteNote st NaN = (Inl InvalidParameter, st)"
  by (simp add: deleteNote_def)

lemma deleteNote_present:
  assumes "i \<in> note_id ` set (notes st)"
  shows "fst (deleteNote st (Integer i)) = Inr True"
proof -
  from assms have "\<exists>r\<in>set (notes st). note_id r = i" by auto
  then have "0 < snd (delete_where (\<lambda>r. note_id r = i) (notes st))"
    by (rule delete_where_present)
  then show ?thesis
    by (simp add: deleteNote_def case_prod_beta)
qed

lemma deleteNote_again:
  "deleteNote (snd (deleteNote st (Integer i))) (Integer i)
   = (Inr False, snd (deleteNote st (Integer i)))"
  by (simp add: deleteNote_def delete_where_def filter_empty_conv)

lemma deleteNote_removed:
  "fst (deleteNote st n) = Inr True \<longleftrightarrow> notes (snd (deleteNote st n)) \<noteq> notes st"
  by (cases n) (auto simp: deleteNote_def delete_where_def filter_empty_conv filter_id_conv)

lemma DELETE_notes_id_present:
  "parseInt p = Integer i \<Longrightarrow> i \<in> note_id ` set (notes st) \<Longrightarrow>
   DELETE_notes_id st p = (Response 204 Empty, snd (deleteNote st (Integer i)))"
  using deleteNote_present [of i st]
  by (cases "deleteNote st (Integer i)") (simp add: DELETE_notes_id_def)

lemma DELETE_notes_id_again:
  "parseInt p = Integer i \<Longrightarrow>
   DELETE_notes_id (snd (deleteNote st (Integer i))) p
   = (Response 404 (Message ''Note not found''), snd (deleteNote st (Integer i)))"
  by (simp add: DELETE_notes_id_def deleteNote_again)

lemma deleteGoal_store:
  "snd (deleteGoal st (Integer i)) = st\<lparr>goals := filter (\<lambda>r. goal_id r \<noteq> i) (goals st)\<rparr>"
  by (simp add: deleteGoal_def delete_where_def)

lemma deleteGoal_NaN: "deleteGoal st NaN = (Inl InvalidParameter, st)"
  by (simp add: deleteGoal_def)

lemma deleteGoal_present:
  assumes "i \<in> goal_id ` set (goals st)"
  shows "fst (deleteGoal st (Integer i)) = Inr True"
proof -
  from assms have "\<exists>r\<in>set (goals st). goal_id r = i" by auto
  then have "0 < snd (delete_where (\<lambda>r. goal_id r = i) (goals st))"
    by (rule delete_where_present)
  then show ?thesis
    by (simp add: deleteGoal_def case_prod_beta)
qed

lemma deleteGoal_again:
  "deleteGoal (snd (deleteGoal st (Integer i))) (Integer i)
   = (Inr False, snd (deleteGoal st (Integer i)))"
  by (simp add: deleteGoal_def delete_where_def filter_empty_conv)

lemma deleteGoal_removed:
  "fst (deleteGoal st n) = Inr True \<longleftrightarrow> goals (snd (deleteGoal st n)) \<noteq> goals st"
  by (cases n) (auto simp: deleteGoal_def delete_where_def filter_empty_conv filter_id_conv)

lemma DELETE_goals_id_present:
  "parseInt p = Integer i \<Longrightarrow> i \<in> goal_id ` set (goals st) \<Longrightarrow>
   DELETE_goals_id st p = (Response 204 Empty, snd (deleteGoal st (Integer i)))"
  using deleteGoal_present [of i st]
  by (cases "deleteGoal st (Integer i)") (simp add: DELETE_goals_id_def)

lemma DELETE_goals_id_again:
  "parseInt p = Integer i \<Longrightarrow>
   DELETE_goals_id (snd (deleteGoal st (Integer i))) p
   = (Response 404 (Message ''Goal not found''), snd (deleteGoal st (Integer i)))"
  by (simp add: DELETE_goals_id_def deleteGoal_again)

lemmas delete_present =
  deleteSubject_present deleteStudySession_present deleteNote_present deleteGoal_present
  DELETE_subjects_id_present DELETE_study_sessions_id_present DELETE_notes_id_present
  DELETE_goals_id_present

lemmas delete_again =
  deleteSubject_again deleteStudySession_again deleteNote_again deleteGoal_again
  DELETE_subjects_id_again DELETE_study_sessions_id_again DELETE_notes_id_again
  DELETE_goals_id_again

text \<open>
  C5: for every id present in the store, deleting it returns \<open>true\<close> (204) and deleting
  the same id again, on the store the first delete left, returns \<open>false\<close> (404) and
  changes nothing; and the result of a delete is \<open>true\<close> exactly when it changed the
  table, that is, when a row was removed.
\<close>

theorem delete_twice:
  assumes "parseInt p = Integer i"
  shows
   "(i \<in> subject_id ` set (subjects st) \<longrightarrow>
       fst (deleteSubject st (Integer i)) = Inr True \<and>
       DELETE_subjects_id st p = (Response 204 Empty, snd (deleteSubject st (Integer i))) \<and>
       deleteSubject (snd (deleteSubject st (Integer i))) (Integer i)
         = (Inr False, snd (deleteSubject st (Integer i))) \<and>
       DELETE_subjects_id (snd (DELETE_subjects_id st p)) p
         = (Response 404 (Message ''Subject not found''), snd (DELETE_subjects_id st p)))
    \<and> (i \<in> session_id ` set (studySessions st) \<longrightarrow>
       fst (deleteStudySession st (Integer i)) = Inr True \<and>
       DELETE_study_sessions_id st p
         = (Response 204 Empty, snd (deleteStudySession st (Integer i))) \<and>
       deleteStudySession (snd (deleteStudySession st (Integer i))) (Integer i)
         = (Inr False, snd (deleteStudySession st (Integer i))) \<and>
       DELETE_study_sessions_id (snd (DELETE_study_sessions_id st p)) p
         = (Response 404 (Message ''Study session not found''),
            snd (DELETE_study_sessions_id st p)))
    \<and> (i \<in> note_id ` set (notes st) \<longrightarrow>
       fst (deleteNote st (Integer i)) = Inr True \<and>
       DELETE_notes_id st p = (Response 204 Empty, snd (deleteNote st (Integer i))) \<and>
       deleteNote (snd (deleteNote st (Integer i))) (Integer i)
         = (Inr False, snd (deleteNote st (Integer i))) \<and>
       DELETE_notes_id (snd (DELETE_notes_id st p)) p
         = (Response 404 (Message ''Note not found''), snd (DELETE_notes_id st p)))
    \<and> (i \<in> goal_id ` set (goals st) \<longrightarrow>
       fst (deleteGoal st (Integer i)) = Inr True \<and>
       DELETE_goals_id st p = (Response 204 Empty, snd (deleteGoal st (Integer i))) \<and>
       deleteGoal (snd (deleteGoal st (Integer i))) (Integer i)
         = (Inr False, snd (deleteGoal st (Integer i))) \<and>
       DELETE_goals_id (snd (DELETE_goals_id st p)) p
         = (Response 404 (Message ''Goal not found''), snd (DELETE_goals_id st p)))
    \<and> (fst (deleteSubject st n) = Inr True
         \<longleftrightarrow> subjects (snd (deleteSubject st n)) \<noteq> subjects st)
    \<and> (fst (deleteStudySession st n) = Inr True
         \<longleftrightarrow> studySessions (snd (deleteStudySession st n)) \<noteq> studySessions st)
    \<and> (fst (deleteNote st n) = Inr True \<longleftrightarrow> notes (snd (deleteNote st n)) \<noteq> notes st)
    \<and> (fst (deleteGoal st n) = Inr True \<longleftrightarrow> goals (snd (deleteGoal st n)) \<noteq> goals st)"
  using assms
    deleteSubject_removed [of st n] deleteStudySession_removed [of st n]
    deleteNote_removed [of st n] deleteGoal_removed [of st n]
  by (simp add: delete_present delete_again)

theorem delete_twice_witness:
  "parseInt ''1'' = Integer 1
   \<and> 1 \<in> subject_id ` set (subjects example_store)
   \<and> 1 \<in> session_id ` set (studySessions example_store)
   \<and> 1 \<in> note_id ` set (notes example_store)
   \<and> 1 \<in> goal_id ` set (goals example_store)
   \<and> DELETE_subjects_id example_store ''1''
       = (Response 204 Empty, example_store\<lparr>subjects := []\<rparr>)
   \<and> DELETE_subjects_id (example_store\<lparr>subjects := []\<rparr>) ''1''
       = (Response 404 (Message ''Subject not found''), example_store\<lparr>subjects := []\<rparr>)
   \<and> DELETE_study_sessions_id example_store ''1''
       = (Response 204 Empty, example_store\<lparr>studySessions := []\<rparr>)
   \<and> DELETE_study_sessions_id (example_store\<lparr>studySessions := []\<rparr>) ''1''
       = (Response 404 (Message ''Study session not found''),
          example_store\<lparr>studySessions := []\<rparr>)
   \<and> DELETE_notes_id example_store ''1''
       = (Response 204 Empty, example_store\<lparr>notes := tl (notes example_store)\<rparr>)
   \<and> DELETE_notes_id (example_store\<lparr>notes := tl (notes example_store)\<rparr>) ''1''
       = (Response 404 (Message ''Note not found''),
          example_store\<lparr>notes := tl (notes example_store)\<rparr>)
   \<and> DELETE_goals_id example_store ''1''
       = (Response 204 Empty, example_store\<lparr>goals := []\<rparr>)
   \<and> DELETE_goals_id (example_store\<lparr>goals := []\<rparr>) ''1''
       = (Response 404 (Message ''Goal not found''), example_store\<lparr>goals := []\<rparr>)"
proof -
  have h: "parseInt ''1'' = Integer 1"
    by (simp add: parseInt_defs)
  show ?thesis
    using h delete_twice [OF h, where st = example_store and n = "Integer 1"]
    by (simp add: example_store_def handler_defs storage_defs statement_defs)
qed

subsection \<open>Deleting a subject and the rows that refer to it\<close>

text \<open>
  C8: deleting a subject removes the rows of \<open>subjects\<close> with that id and nothing else:
  the study sessions and the notes, those that refer to the subject among them, are as
  before, at the storage layer and at the route. The same holds of the other deletes: each
  changes its own table only.
\<close>

theorem delete_subject_has_no_cascade:
  "snd (deleteSubject st (Integer i))
     = st\<lparr>subjects := filter (\<lambda>r. subject_id r \<noteq> i) (subjects st)\<rparr>
   \<and> studySessions (snd (deleteSubject st n)) = studySessions st
   \<and> notes (snd (deleteSubject st n)) = notes st
   \<and> studySessions (snd (DELETE_subjects_id st p)) = studySessions st
   \<and> notes (snd (DELETE_subjects_id st p)) = notes st
   \<and> filter (\<lambda>r. session_subjectId r = i) (studySessions (snd (deleteSubject st (Integer i))))
       = filter (\<lambda>r. session_subjectId r = i) (studySessions st)
   \<and> filter (\<lambda>r. note_subjectId r = i) (notes (snd (deleteSubject st (Integer i))))
       = filter (\<lambda>r. note_subjectId r = i) (notes st)
   \<and> snd (deleteStudySession st (Integer i))
       = st\<lparr>studySessions := filter (\<lambda>r. session_id r \<noteq> i) (studySessions st)\<rparr>
   \<and> snd (deleteNote st (Integer i)) = st\<lparr>notes := filter (\<lambda>r. note_id r \<noteq> i) (notes st)\<rparr>
   \<and> snd (deleteGoal st (Integer i)) = st\<lparr>goals := filter (\<lambda>r. goal_id r \<noteq> i) (goals st)\<rparr>
   \<and> snd (deleteSubject st NaN) = st \<and> snd (deleteStudySession st NaN) = st
   \<and> snd (deleteNote st NaN) = st \<and> snd (deleteGoal st NaN) = st"
proof -
  have "studySessions (snd (deleteSubject st n)) = studySessions st"
    and "notes (snd (deleteSubject st n)) = notes st" for n
    by (cases n; simp add: deleteSubject_store deleteSubject_NaN)+
  then show ?thesis
    by (simp add: snd_DELETE_subjects_id deleteSubject_store deleteStudySession_store
        deleteNote_store deleteGoal_store deleteSubject_NaN deleteStudySession_NaN
        deleteNote_NaN deleteGoal_NaN)
qed

text \<open>
  In the example store the study session and two notes refer to subject 1; they are
  still there once the subject is deleted.
\<close>

theorem delete_subject_has_no_cascade_example:
  "DELETE_subjects_id example_store ''1''
     = (Response 204 Empty, example_store\<lparr>subjects := []\<rparr>)
   \<and> map session_subjectId (studySessions (snd (DELETE_subjects_id example_store ''1''))) = [1]
   \<and> map note_subjectId (notes (snd (DELETE_subjects_id example_store ''1''))) = [1, 2, 1]"
  using delete_subject_has_no_cascade [of example_store 1 "Integer 1" "''1''"]
  by (simp add: example_store_def DELETE_subjects_id_def deleteSubject_def parseInt_defs
      statement_defs)

subsection \<open>The order of the notes\<close>

lemma sorted_order_by: "sorted (map col (order_by col rows))"
  by (simp add: order_by_def)

lemma mset_order_by: "mset (order_by col rows) = mset rows"
  by (simp add: order_by_def)

text \<open>
  C9: \<open>getNotes\<close> and \<open>getNotesBySubject\<close> return their notes in ascending order of
  \<open>createdAt\<close>: all notes, respectively the notes of the subject, each as often as the
  table holds it. The list route answers with that list.
\<close>

theorem notes_sorted_by_createdAt:
  "(\<exists>rows. getNotes st = Inr rows \<and> sorted (map note_createdAt rows)
       \<and> mset rows = mset (notes st))
   \<and> (\<exists>rows. getNotesBySubject st (Integer i) = Inr rows \<and> sorted (map note_createdAt rows)
       \<and> mset rows = mset (filter (\<lambda>r. note_subjectId r = i) (notes st)))
   \<and> (\<exists>rows. GET_notes st None = Response 200 (Json rows)
       \<and> sorted (map note_createdAt rows))"
  by (simp add: getNotes_def getNotesBySubject_def GET_notes_def select_where_def
      sorted_order_by mset_order_by)

theorem notes_sorted_by_createdAt_example:
  "getNotes example_store
     = Inr [\<lparr>note_id = 3, note_subjectId = 1, note_title = ''Rings'',
              note_content = ''ideals'', note_createdAt = ''2024-05-01''\<rparr>,
            \<lparr>note_id = 1, note_subjectId = 1, note_title = ''Groups'',
              note_content = ''closure'', note_createdAt = ''2024-05-02''\<rparr>,
            \<lparr>note_id = 2, note_subjectId = 2, note_title = ''Verbs'',
              note_content = ''tenses'', note_createdAt = ''2024-05-03''\<rparr>]
   \<and> sorted [''2024-05-01'', ''2024-05-02'', ''2024-05-03'']"
  using notes_sorted_by_createdAt [of example_store 1]
  by (simp add: getNotes_def order_by_def example_store_def)

subsection \<open>Validation of creation payloads\<close>


















subsection \<open>Creating\<close>









subsection \<open>Updating\<close>

































subsection \<open>The upsert of the study stats\<close>








subsection \<open>\<open>parseInt\<close> reads a decimal numeral back\<close>


lemma digit_of_digit_char: "d < 10 \<Longrightarrow> digit_of 10 (digit_char d) = Some d"
  by (simp add: digit_of_def digit_char_def)














subsection \<open>The filters of the list routes\<close>




end
